theory Spec2Isabelle
  imports Main
begin

section \<open>Data model\<close>

text \<open>
  A survey response as \<^verbatim>\<open>HealthFeedbackApp.collectFormData\<close> builds it: two nested
  objects (\<^verbatim>\<open>demographics\<close>, \<^verbatim>\<open>lifestyle\<close>), the list of checked medical-condition
  tags in submission order, and two top-level strings. Every enum of the form arrives as
  the string value of its form control, so the fields are strings and a value outside
  the enum is representable.
\<close>

record demographics_t =
  ageGroup :: string
  gender :: string
  location :: string

record lifestyle_t =
  physicalActivity :: string
  dietHabits :: string
  sleepHours :: string
  smoking :: string
  alcohol :: string

record response =
  timestamp :: string
  demographics :: demographics_t
  lifestyle :: lifestyle_t
  medicalConditions :: "string list"
  overallHealth :: string
  additionalComments :: string

section \<open>Classifier (class HealthFeedbackApp)\<close>

subsection \<open>The constructor's tables\<close>

record threshold =
  healthy :: "string list"
  abnormal :: "string list"

definition th_physicalActivity :: threshold where
  "th_physicalActivity =
     \<lparr>healthy = [''moderate'', ''active'', ''very-active''],
      abnormal = [''sedentary'', ''light'']\<rparr>"

definition th_sleepHours :: threshold where
  "th_sleepHours =
     \<lparr>healthy = [''7-8'', ''9-10''],
      abnormal = [''less-than-5'', ''5-6'', ''more-than-10'']\<rparr>"

definition th_smoking :: threshold where
  "th_smoking =
     \<lparr>healthy = [''never''],
      abnormal = [''former'', ''occasional'', ''regular'']\<rparr>"

definition th_alcohol :: threshold where
  "th_alcohol =
     \<lparr>healthy = [''never'', ''rarely'', ''moderate''],
      abnormal = [''regular'']\<rparr>"

definition th_overallHealth :: threshold where
  "th_overallHealth =
     \<lparr>healthy = [''excellent'', ''good''],
      abnormal = [''fair'', ''poor'']\<rparr>"

definition riskConditions :: "string list" where
  "riskConditions =
     [''diabetes'', ''hypertension'', ''heart-disease'', ''asthma'',
      ''arthritis'', ''depression'', ''anxiety'', ''obesity'']"

subsection \<open>classifyHealth\<close>

text \<open>
  The source repeats one statement five times, once per field:
  \<^verbatim>\<open>if (T.healthy.includes(v)) healthyCount++; else if (T.abnormal.includes(v)) abnormalCount++;\<close>
  \<open>checkField\<close> is that statement on the pair \<open>(healthyCount, abnormalCount)\<close>.
\<close>

definition checkField :: "threshold \<Rightarrow> string \<Rightarrow> nat \<times> nat \<Rightarrow> nat \<times> nat" where
  "checkField t v c =
     (if v \<in> set (healthy t) then (fst c + 1, snd c)
      else if v \<in> set (abnormal t) then (fst c, snd c + 1)
      else c)"

definition hasRiskConditions :: "response \<Rightarrow> bool" where
  "hasRiskConditions d =
     list_ex (\<lambda>condition. condition \<in> set riskConditions \<and> condition \<noteq> ''none'')
       (medicalConditions d)"

text \<open>The two counters of \<^verbatim>\<open>classifyHealth\<close> when it reaches its final comparison.\<close>

definition voteCounts :: "response \<Rightarrow> nat \<times> nat" where
  "voteCounts d =
     (let c = (0, 0);
          c = checkField th_physicalActivity (physicalActivity (lifestyle d)) c;
          c = checkField th_sleepHours (sleepHours (lifestyle d)) c;
          c = checkField th_smoking (smoking (lifestyle d)) c;
          c = checkField th_alcohol (alcohol (lifestyle d)) c;
          c = checkField th_overallHealth (overallHealth d) c
      in if hasRiskConditions d then (fst c, snd c + 2)
         else if ''none'' \<in> set (medicalConditions d) then (fst c + 1, snd c)
         else c)"

definition classifyHealth :: "response \<Rightarrow> string" where
  "classifyHealth d =
     (let healthyCount = fst (voteCounts d); abnormalCount = snd (voteCounts d)
      in if abnormalCount > healthyCount then ''abnormal''
         else if healthyCount > abnormalCount then ''healthy''
         else ''moderate'')"

subsection \<open>identifyRiskFactors\<close>

definition lowerLetters :: string where
  "lowerLetters = ''abcdefghijklmnopqrstuvwxyz''"

definition upperLetters :: string where
  "upperLetters = ''ABCDEFGHIJKLMNOPQRSTUVWXYZ''"

text \<open>The character class \<^verbatim>\<open>\w\<close> of a regular expression without the unicode flag.\<close>

definition isWordChar :: "char \<Rightarrow> bool" where
  "isWordChar c = (c \<in> set (lowerLetters @ upperLetters @ ''0123456789_''))"

definition toUpperChar :: "char \<Rightarrow> char" where
  "toUpperChar c = (case map_of (zip lowerLetters upperLetters) c of Some u \<Rightarrow> u | None \<Rightarrow> c)"

definition toLowerChar :: "char \<Rightarrow> char" where
  "toLowerChar c = (case map_of (zip upperLetters lowerLetters) c of Some l \<Rightarrow> l | None \<Rightarrow> c)"

text \<open>\<^verbatim>\<open>s.replace('-', ' ')\<close>: a string pattern replaces the first occurrence only.\<close>

fun replaceFirstHyphen :: "string \<Rightarrow> string" where
  "replaceFirstHyphen [] = []"
| "replaceFirstHyphen (c # cs) =
     (if c = CHR ''-'' then CHR '' '' # cs else c # replaceFirstHyphen cs)"

text \<open>
  \<^verbatim>\<open>s.replace(/\b\w/g, l => l.toUpperCase())\<close>: a word character is upper-cased when the
  character before it (if any) is not a word character. The flag is "the previous
  character was a word character".
\<close>

fun capitalizeWords :: "bool \<Rightarrow> string \<Rightarrow> string" where
  "capitalizeWords prev [] = []"
| "capitalizeWords prev (c # cs) =
     (if isWordChar c \<and> \<not> prev then toUpperChar c else c) # capitalizeWords (isWordChar c) cs"

definition titleCase :: "string \<Rightarrow> string" where
  "titleCase condition = capitalizeWords False (replaceFirstHyphen condition)"

definition identifyRiskFactors :: "response \<Rightarrow> string list" where
  "identifyRiskFactors d =
     (let riskFactors = [];
          riskFactors = (if physicalActivity (lifestyle d) = ''sedentary''
                         then riskFactors @ [''Sedentary lifestyle''] else riskFactors);
          riskFactors = (if sleepHours (lifestyle d) = ''less-than-5''
                            \<or> sleepHours (lifestyle d) = ''more-than-10''
                         then riskFactors @ [''Poor sleep patterns''] else riskFactors);
          riskFactors = (if smoking (lifestyle d) = ''regular''
                            \<or> smoking (lifestyle d) = ''occasional''
                         then riskFactors @ [''Smoking''] else riskFactors);
          riskFactors = (if alcohol (lifestyle d) = ''regular''
                         then riskFactors @ [''High alcohol consumption''] else riskFactors);
          riskFactors = (if dietHabits (lifestyle d) = ''fast-food''
                         then riskFactors @ [''Poor diet habits''] else riskFactors);
          medicalRisks = filter (\<lambda>condition. condition \<in> set riskConditions)
                           (medicalConditions d)
      in riskFactors @ map titleCase medicalRisks)"

subsection \<open>calculateHealthScore\<close>

text \<open>
  The score tables are object literals read as \<^verbatim>\<open>table[key] || 0\<close>. A property read
  on an object literal finds the literal's own keys and, failing that, the members every
  object inherits from \<^verbatim>\<open>Object.prototype\<close>; only a key found in neither reads as
  \<^verbatim>\<open>undefined\<close>. The inherited members are functions (and, for \<^verbatim>\<open>__proto__\<close>, an object):
  truthy values that are not numbers.
\<close>

definition objectPrototypeKeys :: "string list" where
  "objectPrototypeKeys =
     [''constructor'', ''__proto__'', ''hasOwnProperty'', ''isPrototypeOf'',
      ''propertyIsEnumerable'', ''toLocaleString'', ''toString'', ''valueOf'',
      ''__defineGetter__'', ''__defineSetter__'', ''__lookupGetter__'', ''__lookupSetter__'']"

datatype property = Own int | Inherited | Undefined

definition getProperty :: "(string \<times> int) list \<Rightarrow> string \<Rightarrow> property" where
  "getProperty obj key =
     (case map_of obj key of
        Some v \<Rightarrow> Own v
      | None \<Rightarrow> if key \<in> set objectPrototypeKeys then Inherited else Undefined)"

text \<open>
  The values the variable \<^verbatim>\<open>score\<close> can hold: a number, \<^verbatim>\<open>NaN\<close>, or (after \<^verbatim>\<open>+=\<close> with
  a function or object operand, which concatenates) a string that is not a numeric
  literal.
\<close>

datatype jsvalue = Number int | NaN | Text

text \<open>\<^verbatim>\<open>score += n\<close> for a number \<open>n\<close>.\<close>

fun plusNumber :: "jsvalue \<Rightarrow> int \<Rightarrow> jsvalue" where
  "plusNumber (Number s) n = Number (s + n)"
| "plusNumber NaN n = NaN"
| "plusNumber Text n = Text"

text \<open>\<^verbatim>\<open>score += table[key] || 0\<close>.\<close>

fun plusLookup :: "jsvalue \<Rightarrow> property \<Rightarrow> jsvalue" where
  "plusLookup s (Own v) = plusNumber s v"
| "plusLookup s Undefined = plusNumber s 0"
| "plusLookup s Inherited = Text"

text \<open>\<^verbatim>\<open>score -= n\<close>: subtraction converts a string operand to a number first.\<close>

fun minusNumber :: "jsvalue \<Rightarrow> int \<Rightarrow> jsvalue" where
  "minusNumber (Number s) n = Number (s - n)"
| "minusNumber NaN n = NaN"
| "minusNumber Text n = NaN"

text \<open>\<^verbatim>\<open>Math.max(0, Math.min(100, score))\<close>.\<close>

fun clampScore :: "jsvalue \<Rightarrow> jsvalue" where
  "clampScore (Number s) = Number (max 0 (min 100 s))"
| "clampScore NaN = NaN"
| "clampScore Text = NaN"

definition activityScores :: "(string \<times> int) list" where
  "activityScores =
     [(''very-active'', 20), (''active'', 15), (''moderate'', 10), (''light'', 5),
      (''sedentary'', -10)]"

definition sleepScores :: "(string \<times> int) list" where
  "sleepScores =
     [(''7-8'', 15), (''9-10'', 10), (''5-6'', 5), (''less-than-5'', -15),
      (''more-than-10'', -5)]"

definition smokingScores :: "(string \<times> int) list" where
  "smokingScores = [(''never'', 10), (''former'', 5), (''occasional'', -5), (''regular'', -20)]"

definition alcoholScores :: "(string \<times> int) list" where
  "alcoholScores = [(''never'', 5), (''rarely'', 5), (''moderate'', 0), (''regular'', -10)]"

definition healthScores :: "(string \<times> int) list" where
  "healthScores = [(''excellent'', 20), (''good'', 10), (''fair'', -5), (''poor'', -20)]"

definition calculateHealthScore :: "response \<Rightarrow> jsvalue" where
  "calculateHealthScore d =
     (let score = Number 50;
          score = plusLookup score (getProperty activityScores (physicalActivity (lifestyle d)));
          score = plusLookup score (getProperty sleepScores (sleepHours (lifestyle d)));
          score = plusLookup score (getProperty smokingScores (smoking (lifestyle d)));
          score = plusLookup score (getProperty alcoholScores (alcohol (lifestyle d)));
          score = plusLookup score (getProperty healthScores (overallHealth d));
          riskConditionCount =
            length (filter (\<lambda>condition. condition \<in> set riskConditions) (medicalConditions d));
          score = minusNumber score (int riskConditionCount * 10);
          score = (if ''none'' \<in> set (medicalConditions d) then plusNumber score 10 else score)
      in clampScore score)"

section \<open>Data manager (class HealthDataManager)\<close>

subsection \<open>Stored records\<close>

text \<open>
  A stored submission is a response extended by \<^verbatim>\<open>processHealthData\<close> with the derived
  fields and by \<^verbatim>\<open>addSubmission\<close> with an \<^verbatim>\<open>id\<close> (absent on entries stored by another
  path). Stored scores are modelled as integers.
\<close>

record submission = response +
  healthClassification :: string
  riskFactors :: "string list"
  healthScore :: int
  ident :: "string option"

record app_settings =
  dataRetentionDays :: int
  maxSubmissions :: int
  exportFormat :: string
  anonymizeData :: bool
  lastCleanup :: "string option"

definition defaultSettings :: app_settings where
  "defaultSettings =
     \<lparr>dataRetentionDays = 365, maxSubmissions = 10000, exportFormat = ''json'',
      anonymizeData = True, lastCleanup = None\<rparr>"

text \<open>
  A frequency object of the statistics: a JavaScript object used as a map from keys to
  counts. A slot holds a number, or a string that is not a number once a non-numeric
  inherited member has been "incremented".
\<close>

datatype counter = Count nat | Garbled

type_synonym counters = "string \<Rightarrow> counter option"

record demographics_stats =
  ageGroups :: counters
  genders :: counters
  locations :: counters

record lifestyle_stats =
  stat_physicalActivity :: counters
  stat_dietHabits :: counters
  stat_sleepHours :: counters
  stat_smoking :: counters
  stat_alcohol :: counters

text \<open>The five fixed keys \<^verbatim>\<open>'0-20'\<close> ... \<^verbatim>\<open>'81-100'\<close> of the score distribution.\<close>

record distribution_t =
  d_0_20 :: nat
  d_21_40 :: nat
  d_41_60 :: nat
  d_61_80 :: nat
  d_81_100 :: nat

record score_stats =
  average :: int
  min_score :: int
  max_score :: int
  distribution :: distribution_t

record trend_stats =
  daily :: counters
  weekly :: counters
  monthly :: counters

record statistics_t =
  totalSubmissions :: nat
  lastUpdated :: string
  stat_demographics :: demographics_stats
  stat_lifestyle :: lifestyle_stats
  healthClassifications :: counters
  stat_medicalConditions :: counters
  stat_healthScores :: score_stats
  stat_riskFactors :: counters
  trends :: trend_stats

text \<open>The three keys of local storage, already parsed.\<close>

record store =
  submissions :: "submission list"
  statistics :: "statistics_t option"
  settings :: app_settings

subsection \<open>The browser's built-ins\<close>

text \<open>
  The functions of the JavaScript runtime that the data manager calls and that are not
  code of the repository are parameters of the model. Instants are milliseconds since
  the epoch. \<open>parseDate s\<close> is \<^verbatim>\<open>new Date(s)\<close>, \<open>None\<close> for an invalid date;
  \<open>firstOfJanuary y\<close> is \<^verbatim>\<open>new Date(y, 0, 1)\<close>; \<open>testPII\<close> is the disjunction of
  the four \<^verbatim>\<open>pattern.test\<close> calls of \<^verbatim>\<open>anonymizeSubmission\<close>.
\<close>

record browser =
  parseDate :: "string \<Rightarrow> int option"
  toISOString :: "int \<Rightarrow> string"
  getFullYear :: "int \<Rightarrow> int"
  getMonth :: "int \<Rightarrow> int"
  getDay :: "int \<Rightarrow> int"
  firstOfJanuary :: "int \<Rightarrow> int"
  testPII :: "string \<Rightarrow> bool"

subsection \<open>String helpers of the runtime\<close>

fun showNat :: "nat \<Rightarrow> string" where
  "showNat n =
     (if n < 10 then [''0123456789'' ! n]
      else showNat (n div 10) @ [''0123456789'' ! (n mod 10)])"

declare showNat.simps [simp del]

text \<open>\<^verbatim>\<open>String(n)\<close> for an integer.\<close>

definition showInt :: "int \<Rightarrow> string" where
  "showInt i = (if i < 0 then CHR ''-'' # showNat (nat (- i)) else showNat (nat i))"

text \<open>\<^verbatim>\<open>s.padStart(2, '0')\<close>.\<close>

definition padStart2 :: "string \<Rightarrow> string" where
  "padStart2 s = replicate (2 - length s) CHR ''0'' @ s"

text \<open>\<^verbatim>\<open>parts.join(sep)\<close>.\<close>

fun join :: "string \<Rightarrow> string list \<Rightarrow> string" where
  "join sep [] = []"
| "join sep [x] = x"
| "join sep (x # y # ys) = x @ sep @ join sep (y # ys)"

text \<open>\<^verbatim>\<open>s.split(sep)[0]\<close> for a one-character separator.\<close>

definition firstSegment :: "char \<Rightarrow> string \<Rightarrow> string" where
  "firstSegment sep s = takeWhile (\<lambda>c. c \<noteq> sep) s"

text \<open>
  \<^verbatim>\<open>s.trim()\<close>. A character of the model is a code unit below 256; the white space and
  line terminators that \<^verbatim>\<open>trim\<close> strips in that range are space, tab, line feed, vertical
  tab, form feed, carriage return and the no-break space U+00A0.
\<close>

definition isSpace :: "char \<Rightarrow> bool" where
  "isSpace c =
     (c \<in> set [CHR 0x20, CHR 0x09, CHR 0x0A, CHR 0x0B, CHR 0x0C, CHR 0x0D, CHR 0xA0])"

definition trim :: "string \<Rightarrow> string" where
  "trim s = rev (dropWhile isSpace (rev (dropWhile isSpace s)))"

text \<open>\<^verbatim>\<open>s.toLowerCase()\<close>, on the letters of the ASCII range.\<close>

definition toLowerCase :: "string \<Rightarrow> string" where
  "toLowerCase s = map toLowerChar s"

subsection \<open>createInitialStatistics, incrementCounter, getWeekKey\<close>

definition createInitialStatistics :: "browser \<Rightarrow> int \<Rightarrow> statistics_t" where
  "createInitialStatistics env now =
     \<lparr>totalSubmissions = 0,
      lastUpdated = toISOString env now,
      stat_demographics = \<lparr>ageGroups = Map.empty, genders = Map.empty, locations = Map.empty\<rparr>,
      stat_lifestyle =
        \<lparr>stat_physicalActivity = Map.empty, stat_dietHabits = Map.empty,
         stat_sleepHours = Map.empty, stat_smoking = Map.empty, stat_alcohol = Map.empty\<rparr>,
      healthClassifications =
        [''healthy'' \<mapsto> Count 0, ''moderate'' \<mapsto> Count 0, ''abnormal'' \<mapsto> Count 0],
      stat_medicalConditions = Map.empty,
      stat_healthScores =
        \<lparr>average = 0, min_score = 100, max_score = 0,
         distribution = \<lparr>d_0_20 = 0, d_21_40 = 0, d_41_60 = 0, d_61_80 = 0, d_81_100 = 0\<rparr>\<rparr>,
      stat_riskFactors = Map.empty,
      trends = \<lparr>daily = Map.empty, weekly = Map.empty, monthly = Map.empty\<rparr>\<rparr>"

text \<open>
  \<^verbatim>\<open>if (key && key !== '') obj[key] = (obj[key] || 0) + 1\<close>. A key the object does not own
  but inherits reads as a function or object, and adding 1 to that gives a string; the
  assignment stores it, except under \<^verbatim>\<open>__proto__\<close>, whose setter ignores a string.
\<close>

definition incrementCounter :: "counters \<Rightarrow> string \<Rightarrow> counters" where
  "incrementCounter obj key =
     (if key = [] then obj
      else case obj key of
        Some (Count n) \<Rightarrow> obj(key \<mapsto> Count (n + 1))
      | Some Garbled \<Rightarrow> obj(key \<mapsto> Garbled)
      | None \<Rightarrow>
          if key \<in> set objectPrototypeKeys
          then (if key = ''__proto__'' then obj else obj(key \<mapsto> Garbled))
          else obj(key \<mapsto> Count 1))"

text \<open>\<^verbatim>\<open>Math.ceil(a / 7)\<close> for an integer \<open>a\<close>.\<close>

definition ceilDiv7 :: "int \<Rightarrow> int" where
  "ceilDiv7 a = - ((- a) div 7)"

definition getWeekKey :: "browser \<Rightarrow> int \<Rightarrow> string" where
  "getWeekKey env date =
     (let year = getFullYear env date;
          startOfYear = firstOfJanuary env year;
          days = (date - startOfYear) div (24 * 60 * 60 * 1000);
          week = ceilDiv7 (days + getDay env startOfYear + 1)
      in showInt year @ ''-W'' @ padStart2 (showInt week))"

subsection \<open>updateStatistics\<close>

text \<open>
  The local variables of \<^verbatim>\<open>updateStatistics\<close> that the \<^verbatim>\<open>forEach\<close> callback updates.
\<close>

record aggregate =
  stats :: statistics_t
  totalHealthScore :: int
  minScore :: int
  maxScore :: int

text \<open>The \<^verbatim>\<open>if / else if\<close> chain over the score that increments one distribution slot.\<close>

definition bumpDistribution :: "int \<Rightarrow> distribution_t \<Rightarrow> distribution_t" where
  "bumpDistribution score dist =
     (if score \<le> 20 then dist\<lparr>d_0_20 := d_0_20 dist + 1\<rparr>
      else if score \<le> 40 then dist\<lparr>d_21_40 := d_21_40 dist + 1\<rparr>
      else if score \<le> 60 then dist\<lparr>d_41_60 := d_41_60 dist + 1\<rparr>
      else if score \<le> 80 then dist\<lparr>d_61_80 := d_61_80 dist + 1\<rparr>
      else dist\<lparr>d_81_100 := d_81_100 dist + 1\<rparr>)"

text \<open>
  One call of the \<^verbatim>\<open>forEach\<close> callback. \<^verbatim>\<open>date.toISOString()\<close> throws a RangeError on
  an invalid date; the exception leaves the callback and the loop, which is the result
  \<open>None\<close>.
\<close>

definition processSubmission :: "browser \<Rightarrow> aggregate \<Rightarrow> submission \<Rightarrow> aggregate option" where
  "processSubmission env agg s =
     (let st = stats agg;
          demo = stat_demographics st;
          demo = demo\<lparr>ageGroups := incrementCounter (ageGroups demo) (ageGroup (demographics s))\<rparr>;
          demo = demo\<lparr>genders := incrementCounter (genders demo) (gender (demographics s))\<rparr>;
          loc = trim (firstSegment CHR '','' (location (demographics s)));
          demo = demo\<lparr>locations := incrementCounter (locations demo) loc\<rparr>;
          life = stat_lifestyle st;
          life = life\<lparr>stat_physicalActivity :=
                   incrementCounter (stat_physicalActivity life) (physicalActivity (lifestyle s))\<rparr>;
          life = life\<lparr>stat_dietHabits :=
                   incrementCounter (stat_dietHabits life) (dietHabits (lifestyle s))\<rparr>;
          life = life\<lparr>stat_sleepHours :=
                   incrementCounter (stat_sleepHours life) (sleepHours (lifestyle s))\<rparr>;
          life = life\<lparr>stat_smoking := incrementCounter (stat_smoking life) (smoking (lifestyle s))\<rparr>;
          life = life\<lparr>stat_alcohol := incrementCounter (stat_alcohol life) (alcohol (lifestyle s))\<rparr>;
          classes = incrementCounter (healthClassifications st) (healthClassification s);
          conditions =
            foldl (\<lambda>obj condition. if condition \<noteq> ''none'' then incrementCounter obj condition else obj)
              (stat_medicalConditions st) (medicalConditions s);
          score = healthScore s;
          total = totalHealthScore agg + score;
          lo = min (minScore agg) score;
          hi = max (maxScore agg) score;
          scores = stat_healthScores st;
          scores = scores\<lparr>distribution := bumpDistribution score (distribution scores)\<rparr>;
          risks = foldl incrementCounter (stat_riskFactors st) (riskFactors s)
      in case parseDate env (timestamp s) of
           None \<Rightarrow> None
         | Some date \<Rightarrow>
             let dateKey = firstSegment CHR ''T'' (toISOString env date);
                 weekKey = getWeekKey env date;
                 monthKey = showInt (getFullYear env date) @ ''-''
                              @ padStart2 (showInt (getMonth env date + 1));
                 tr = trends st;
                 tr = tr\<lparr>daily := incrementCounter (daily tr) dateKey\<rparr>;
                 tr = tr\<lparr>weekly := incrementCounter (weekly tr) weekKey\<rparr>;
                 tr = tr\<lparr>monthly := incrementCounter (monthly tr) monthKey\<rparr>
             in Some \<lparr>stats = st\<lparr>stat_demographics := demo, stat_lifestyle := life,
                                   healthClassifications := classes,
                                   stat_medicalConditions := conditions,
                                   stat_healthScores := scores, stat_riskFactors := risks,
                                   trends := tr\<rparr>,
                       totalHealthScore = total, minScore = lo, maxScore = hi\<rparr>)"

text \<open>\<^verbatim>\<open>submissions.forEach(callback)\<close>, stopping at the first exception.\<close>

fun forEachSubmission :: "browser \<Rightarrow> aggregate \<Rightarrow> submission list \<Rightarrow> aggregate option" where
  "forEachSubmission env agg [] = Some agg"
| "forEachSubmission env agg (s # ss) =
     (case processSubmission env agg s of
        None \<Rightarrow> None
      | Some agg' \<Rightarrow> forEachSubmission env agg' ss)"

text \<open>\<^verbatim>\<open>Math.round(a / n)\<close> for an integer \<open>a\<close> and \<open>n > 0\<close>: halves round up.\<close>

definition roundDiv :: "int \<Rightarrow> nat \<Rightarrow> int" where
  "roundDiv a n = (2 * a + int n) div (2 * int n)"

text \<open>
  The summary that \<^verbatim>\<open>updateStatistics\<close> writes to storage when the clock reads \<open>now\<close>,
  or \<open>None\<close> when an exception reaches its \<^verbatim>\<open>catch\<close>, which logs it and writes nothing.
\<close>

definition updateStatistics :: "browser \<Rightarrow> int \<Rightarrow> submission list \<Rightarrow> statistics_t option" where
  "updateStatistics env now subs =
     (let st = createInitialStatistics env now;
          st = st\<lparr>totalSubmissions := length subs\<rparr>;
          st = st\<lparr>lastUpdated := toISOString env now\<rparr>
      in case forEachSubmission env
                \<lparr>stats = st, totalHealthScore = 0, minScore = 100, maxScore = 0\<rparr> subs of
           None \<Rightarrow> None
         | Some agg \<Rightarrow>
             Some ((stats agg)\<lparr>stat_healthScores :=
                (stat_healthScores (stats agg))
                  \<lparr>average := (if length subs > 0
                               then roundDiv (totalHealthScore agg) (length subs) else 0),
                   min_score := (if length subs > 0 then minScore agg else 0),
                   max_score := (if length subs > 0 then maxScore agg else 0)\<rparr>\<rparr>))"

subsection \<open>validateSubmissionData, anonymizeSubmission, addSubmission\<close>

text \<open>
  The required top-level fields are fields of the record, so the \<^verbatim>\<open>hasOwnProperty\<close>
  loop always passes; an empty string is the falsy value of a demographic field.
\<close>

definition validateSubmissionData :: "submission \<Rightarrow> bool" where
  "validateSubmissionData d =
     (if ageGroup (demographics d) = [] \<or> gender (demographics d) = [] then False
      else if healthScore d < 0 \<or> healthScore d > 100 then False
      else if healthClassification d \<notin> set [''healthy'', ''moderate'', ''abnormal''] then False
      else True)"

definition anonymizeSubmission :: "browser \<Rightarrow> submission \<Rightarrow> submission" where
  "anonymizeSubmission env s =
     (let anonymized = s;
          anonymized =
            (if location (demographics anonymized) \<noteq> []
             then anonymized\<lparr>demographics := (demographics anonymized)
                    \<lparr>location := trim (firstSegment CHR '','' (location (demographics anonymized)))\<rparr>\<rparr>
             else anonymized);
          anonymized =
            (if additionalComments anonymized \<noteq> [] \<and> testPII env (additionalComments anonymized)
             then anonymized\<lparr>additionalComments := ''[Comments removed for privacy]''\<rparr>
             else anonymized)
      in anonymized)"

text \<open>\<^verbatim>\<open>xs.splice(0, n)\<close>: the delete count is clamped to the length of the array.\<close>

definition spliceFront :: "int \<Rightarrow> 'a list \<Rightarrow> 'a list" where
  "spliceFront n xs = drop (nat (min (max n 0) (int (length xs)))) xs"

text \<open>
  \<^verbatim>\<open>addSubmission\<close> when the clock reads \<open>now\<close> and \<^verbatim>\<open>generateUniqueId\<close> returns
  \<open>newId\<close>: the returned flag and the storage after the call.
\<close>

definition addSubmission ::
    "browser \<Rightarrow> int \<Rightarrow> string \<Rightarrow> store \<Rightarrow> submission \<Rightarrow> bool \<times> store" where
  "addSubmission env now newId st submissionData =
     (if \<not> validateSubmissionData submissionData then (False, st)
      else
        let subs = submissions st;
            subs = (if int (length subs) \<ge> maxSubmissions (settings st)
                    then let excessCount = int (length subs) - maxSubmissions (settings st) + 1
                         in spliceFront excessCount subs
                    else subs);
            submissionData = (if timestamp submissionData = []
                              then submissionData\<lparr>timestamp := toISOString env now\<rparr>
                              else submissionData);
            submissionData = submissionData\<lparr>ident := Some newId\<rparr>;
            submissionData = (if anonymizeData (settings st)
                              then anonymizeSubmission env submissionData
                              else submissionData);
            subs = subs @ [submissionData];
            st = st\<lparr>submissions := subs\<rparr>;
            st = (case updateStatistics env now subs of
                    None \<Rightarrow> st
                  | Some summary \<Rightarrow> st\<lparr>statistics := Some summary\<rparr>)
        in (True, st))"

subsection \<open>cleanupOldData\<close>

text \<open>\<^verbatim>\<open>new Date(ms)\<close>: an instant more than 8.64e15 ms from the epoch is an invalid date.\<close>

definition timeClip :: "int \<Rightarrow> int option" where
  "timeClip ms = (if \<bar>ms\<bar> \<le> 8640000000000000 then Some ms else None)"

text \<open>\<^verbatim>\<open>a > b\<close> on two dates: false when either is invalid.\<close>

fun dateGreater :: "int option \<Rightarrow> int option \<Rightarrow> bool" where
  "dateGreater (Some a) (Some b) = (a > b)"
| "dateGreater _ _ = False"

definition cleanupOldData :: "browser \<Rightarrow> int \<Rightarrow> store \<Rightarrow> store" where
  "cleanupOldData env now st =
     (let subs = submissions st;
          retentionMs = dataRetentionDays (settings st) * 24 * 60 * 60 * 1000;
          cutoffDate = timeClip (now - retentionMs);
          filteredSubmissions =
            filter (\<lambda>s. dateGreater (parseDate env (timestamp s)) cutoffDate) subs
      in if length filteredSubmissions \<noteq> length subs
         then let st = st\<lparr>submissions := filteredSubmissions\<rparr>
              in (case updateStatistics env now filteredSubmissions of
                    None \<Rightarrow> st
                  | Some summary \<Rightarrow> st\<lparr>statistics := Some summary\<rparr>)
         else st)"

subsection \<open>exportData, exportAsJSON, exportAsCSV\<close>

text \<open>The \<^verbatim>\<open>options\<close> argument: each flag is \<open>None\<close> when the caller leaves it out.\<close>

record export_options =
  includeSubmissions :: "bool option"
  includeStatistics :: "bool option"
  includeSettings :: "bool option"

record export_metadata =
  exportDate :: string
  meta_totalSubmissions :: nat
  dataVersion :: string
  source :: string

text \<open>The object handed to \<^verbatim>\<open>exportAsJSON\<close>; an empty object \<^verbatim>\<open>{}\<close> is \<open>None\<close>.\<close>

record export_data =
  metadata :: export_metadata
  exp_submissions :: "submission list"
  exp_statistics :: "statistics_t option"
  exp_settings :: "app_settings option"

text \<open>
  What the blob of an export holds: the object that \<^verbatim>\<open>JSON.stringify\<close> serialises, or the
  text of the table.
\<close>

datatype export_content = JsonContent export_data | CsvContent string

text \<open>
  An export result: \<^verbatim>\<open>{success: true, blob, url, filename, size, type}\<close> with the blob's
  content, the file name and the content type, or \<^verbatim>\<open>{success: false, error}\<close>.
\<close>

datatype export_result = Success export_content string string | Failure string

definition exportAsJSON :: "browser \<Rightarrow> int \<Rightarrow> export_data \<Rightarrow> export_result" where
  "exportAsJSON env now d =
     Success (JsonContent d)
       (''health-feedback-data-'' @ firstSegment CHR ''T'' (toISOString env now) @ ''.json'')
       ''application/json''"

definition csvHeaders :: "string list" where
  "csvHeaders =
     [''Timestamp'', ''Age Group'', ''Gender'', ''Location'', ''Physical Activity'',
      ''Diet Habits'', ''Sleep Hours'', ''Smoking'', ''Alcohol'', ''Medical Conditions'',
      ''Overall Health'', ''Health Score'', ''Health Classification'', ''Risk Factors'']"

text \<open>A cell of a row before it is written: a string, or the numeric health score.\<close>

datatype csv_field = Str string | Num int

definition csvRow :: "submission \<Rightarrow> csv_field list" where
  "csvRow s =
     [Str (timestamp s),
      Str (ageGroup (demographics s)),
      Str (gender (demographics s)),
      Str (location (demographics s)),
      Str (physicalActivity (lifestyle s)),
      Str (dietHabits (lifestyle s)),
      Str (sleepHours (lifestyle s)),
      Str (smoking (lifestyle s)),
      Str (alcohol (lifestyle s)),
      Str (join ''; '' (medicalConditions s)),
      Str (overallHealth s),
      Num (healthScore s),
      Str (healthClassification s),
      Str (join ''; '' (riskFactors s))]"

text \<open>\<^verbatim>\<open>field.replace(/"/g, '""')\<close>.\<close>

definition doubleQuotes :: "string \<Rightarrow> string" where
  "doubleQuotes s = concat (map (\<lambda>c. if c = CHR 0x22 then [CHR 0x22, CHR 0x22] else [c]) s)"

text \<open>
  The cell as \<^verbatim>\<open>join(',')\<close> writes it after the \<^verbatim>\<open>row.map\<close> of \<^verbatim>\<open>exportAsCSV\<close>:
  \<^verbatim>\<open>typeof field === 'string' && field.includes(',') ? `"${field.replace(/"/g, '""')}"` : field\<close>.
\<close>

fun csvCell :: "csv_field \<Rightarrow> string" where
  "csvCell (Str field) =
     (if CHR '','' \<in> set field then [CHR 0x22] @ doubleQuotes field @ [CHR 0x22] else field)"
| "csvCell (Num n) = showInt n"

definition csvContent :: "submission list \<Rightarrow> string" where
  "csvContent subs =
     join [CHR 0x0A]
       (join '','' csvHeaders # map (\<lambda>row. join '','' (map csvCell row)) (map csvRow subs))"

definition exportAsCSV :: "browser \<Rightarrow> int \<Rightarrow> submission list \<Rightarrow> export_result" where
  "exportAsCSV env now subs =
     (if length subs = 0 then Failure ''No data to export''
      else Success (CsvContent (csvContent subs))
             (''health-feedback-submissions-'' @ firstSegment CHR ''T'' (toISOString env now)
                @ ''.csv'')
             ''text/csv'')"

definition exportData ::
    "browser \<Rightarrow> int \<Rightarrow> store \<Rightarrow> string \<Rightarrow> export_options \<Rightarrow> export_result" where
  "exportData env now st format options =
     (let subs = submissions st;
          d = \<lparr>metadata = \<lparr>exportDate = toISOString env now,
                            meta_totalSubmissions = length subs,
                            dataVersion = ''1.0'',
                            source = ''Health Feedback Form''\<rparr>,
               exp_submissions = (if includeSubmissions options \<noteq> Some False then subs else []),
               exp_statistics = (if includeStatistics options \<noteq> Some False
                                 then statistics st else None),
               exp_settings = (if includeSettings options = Some True
                               then Some (settings st) else None)\<rparr>
      in if toLowerCase format = ''json'' then exportAsJSON env now d
         else if toLowerCase format = ''csv'' then exportAsCSV env now subs
         else Failure (''Unsupported export format: '' @ format))"

section \<open>Vocabulary of the claims\<close>

subsection \<open>Votes as the specification words them\<close>

text \<open>
  The specification's vote rule, written from its sentences and independently of
  \<open>voteCounts\<close>: a field contributes one vote to a bucket when its value is in that
  bucket's table; a risk tag other than "none" contributes two abnormal votes; the
  "none" tag, when no risk tag is present, contributes one healthy vote.
\<close>

definition spec_bucketVote :: "string list \<Rightarrow> string \<Rightarrow> nat" where
  "spec_bucketVote bucket v = (if v \<in> set bucket then 1 else 0)"

definition spec_riskTagPresent :: "response \<Rightarrow> bool" where
  "spec_riskTagPresent d =
     (set (medicalConditions d) \<inter> (set riskConditions - {''none''}) \<noteq> {})"

definition spec_healthyVotes :: "response \<Rightarrow> nat" where
  "spec_healthyVotes d =
     spec_bucketVote (healthy th_physicalActivity) (physicalActivity (lifestyle d))
   + spec_bucketVote (healthy th_sleepHours) (sleepHours (lifestyle d))
   + spec_bucketVote (healthy th_smoking) (smoking (lifestyle d))
   + spec_bucketVote (healthy th_alcohol) (alcohol (lifestyle d))
   + spec_bucketVote (healthy th_overallHealth) (overallHealth d)
   + (if ''none'' \<in> set (medicalConditions d) \<and> \<not> spec_riskTagPresent d then 1 else 0)"

definition spec_abnormalVotes :: "response \<Rightarrow> nat" where
  "spec_abnormalVotes d =
     spec_bucketVote (abnormal th_physicalActivity) (physicalActivity (lifestyle d))
   + spec_bucketVote (abnormal th_sleepHours) (sleepHours (lifestyle d))
   + spec_bucketVote (abnormal th_smoking) (smoking (lifestyle d))
   + spec_bucketVote (abnormal th_alcohol) (alcohol (lifestyle d))
   + spec_bucketVote (abnormal th_overallHealth) (overallHealth d)
   + (if spec_riskTagPresent d then 2 else 0)"

subsection \<open>Risk labels of the lifestyle fields, in field order\<close>

definition spec_lifestyleRiskFactors :: "lifestyle_t \<Rightarrow> string list" where
  "spec_lifestyleRiskFactors l =
     (if physicalActivity l = ''sedentary'' then [''Sedentary lifestyle''] else [])
   @ (if sleepHours l \<in> {''less-than-5'', ''more-than-10''} then [''Poor sleep patterns''] else [])
   @ (if smoking l \<in> {''regular'', ''occasional''} then [''Smoking''] else [])
   @ (if alcohol l = ''regular'' then [''High alcohol consumption''] else [])
   @ (if dietHabits l = ''fast-food'' then [''Poor diet habits''] else [])"

subsection \<open>The entry that addSubmission appends\<close>

text \<open>
  The submission after the three preparation steps of \<^verbatim>\<open>addSubmission\<close>: the default
  timestamp, the new id, and the anonymisation when the settings ask for it.
\<close>

definition storedEntry ::
    "browser \<Rightarrow> int \<Rightarrow> string \<Rightarrow> app_settings \<Rightarrow> submission \<Rightarrow> submission" where
  "storedEntry env now newId cfg s =
     (let s1 = (if timestamp s = [] then s\<lparr>timestamp := toISOString env now\<rparr> else s);
          s2 = s1\<lparr>ident := Some newId\<rparr>
      in if anonymizeData cfg then anonymizeSubmission env s2 else s2)"

subsection \<open>Retention by age\<close>

text \<open>
  A submission is retained at \<open>now\<close> under a window of \<open>days\<close> days when its timestamp is
  a valid date and its age \<open>now - t\<close> is less than the window.
\<close>

definition retained :: "browser \<Rightarrow> int \<Rightarrow> int \<Rightarrow> submission \<Rightarrow> bool" where
  "retained env now days s =
     (case parseDate env (timestamp s) of
        None \<Rightarrow> False
      | Some t \<Rightarrow> now - t < days * 86400000)"

subsection \<open>Summaries up to the clock, and their totals\<close>

definition withLastUpdated :: "string \<Rightarrow> statistics_t \<Rightarrow> statistics_t" where
  "withLastUpdated u st = st\<lparr>lastUpdated := u\<rparr>"





subsection \<open>The loop of the aggregator\<close>

text \<open>
  \<open>updateStatistics\<close> is the loop from a start aggregate followed by the three
  assignments to the score statistics.
\<close>

definition startAggregate :: "browser \<Rightarrow> int \<Rightarrow> nat \<Rightarrow> aggregate" where
  "startAggregate env now n =
     \<lparr>stats = (createInitialStatistics env now)
                \<lparr>totalSubmissions := n, lastUpdated := toISOString env now\<rparr>,
      totalHealthScore = 0, minScore = 100, maxScore = 0\<rparr>"

definition finishAggregate :: "nat \<Rightarrow> aggregate \<Rightarrow> statistics_t" where
  "finishAggregate n agg =
     (stats agg)\<lparr>stat_healthScores :=
        (stat_healthScores (stats agg))
          \<lparr>average := (if n > 0 then roundDiv (totalHealthScore agg) n else 0),
           min_score := (if n > 0 then minScore agg else 0),
           max_score := (if n > 0 then maxScore agg else 0)\<rparr>\<rparr>"

definition relabel :: "string \<Rightarrow> aggregate \<Rightarrow> aggregate" where
  "relabel u agg = agg\<lparr>stats := withLastUpdated u (stats agg)\<rparr>"




section \<open>Example data\<close>

text \<open>
  A runtime that agrees with a browser in the UTC time zone on the two instants and the
  three strings the examples use: midnight of 1 January 1970 (a Thursday) and of
  2 January 1970, and a string that is not a date.
\<close>

definition exampleBrowser :: browser where
  "exampleBrowser =
     \<lparr>parseDate = (\<lambda>s. if s = ''1970-01-01T00:00:00.000Z'' then Some 0
                        else if s = ''1970-01-02T00:00:00.000Z'' then Some 86400000
                        else None),
      toISOString = (\<lambda>t. if t = 0 then ''1970-01-01T00:00:00.000Z''
                          else ''1970-01-02T00:00:00.000Z''),
      getFullYear = (\<lambda>t. 1970),
      getMonth = (\<lambda>t. 0),
      getDay = (\<lambda>t. 4),
      firstOfJanuary = (\<lambda>y. 0),
      testPII = (\<lambda>s. False)\<rparr>"

definition exampleBase :: response where
  "exampleBase =
     \<lparr>timestamp = ''1970-01-01T00:00:00.000Z'',
      demographics = \<lparr>ageGroup = ''26-35'', gender = ''female'', location = ''Pune, India''\<rparr>,
      lifestyle = \<lparr>physicalActivity = ''active'', dietHabits = ''balanced'',
                   sleepHours = ''5-6'', smoking = ''regular'', alcohol = ''rarely''\<rparr>,
      medicalConditions = [''asthma''],
      overallHealth = ''fair'',
      additionalComments = []\<rparr>"

text \<open>
  The response of the specification's worked example: the six fields it fixes, on top of
  any response \<open>d\<close> for the fields it leaves open.
\<close>

definition exampleResponse :: "response \<Rightarrow> response" where
  "exampleResponse d =
     d\<lparr>lifestyle := (lifestyle d)\<lparr>physicalActivity := ''sedentary'', sleepHours := ''7-8'',
                                    smoking := ''never'', alcohol := ''never''\<rparr>,
       overallHealth := ''good'', medicalConditions := [''none'']\<rparr>"

definition formerSmoker :: response where
  "formerSmoker =
     (exampleResponse exampleBase)
       \<lparr>lifestyle := (lifestyle (exampleResponse exampleBase))\<lparr>smoking := ''former''\<rparr>\<rparr>"

text \<open>A response whose activity field names a member that every object inherits.\<close>

definition constructorResponse :: response where
  "constructorResponse =
     (exampleResponse exampleBase)
       \<lparr>lifestyle := (lifestyle (exampleResponse exampleBase))
                       \<lparr>physicalActivity := ''constructor''\<rparr>\<rparr>"

definition exampleSubmission :: submission where
  "exampleSubmission =
     \<lparr>timestamp = ''1970-01-01T00:00:00.000Z'',
      demographics = \<lparr>ageGroup = ''26-35'', gender = ''female'', location = ''Pune, India''\<rparr>,
      lifestyle = \<lparr>physicalActivity = ''sedentary'', dietHabits = ''balanced'',
                   sleepHours = ''7-8'', smoking = ''never'', alcohol = ''never''\<rparr>,
      medicalConditions = [''none''],
      overallHealth = ''good'',
      additionalComments = [],
      healthClassification = ''healthy'',
      riskFactors = [''Sedentary lifestyle''],
      healthScore = 90,
      ident = None\<rparr>"

definition laterSubmission :: submission where
  "laterSubmission = exampleSubmission\<lparr>timestamp := ''1970-01-02T00:00:00.000Z''\<rparr>"

text \<open>A store holding one submission, with the maximum set to \<open>n\<close>.\<close>

definition exampleStore :: "int \<Rightarrow> store" where
  "exampleStore n =
     \<lparr>submissions = [exampleSubmission],
      statistics = None,
      settings = defaultSettings\<lparr>maxSubmissions := n\<rparr>\<rparr>"

definition secondSubmission :: submission where
  "secondSubmission = exampleSubmission\<lparr>healthClassification := ''moderate'', healthScore := 55\<rparr>"

definition thirdSubmission :: submission where
  "thirdSubmission = exampleSubmission\<lparr>healthClassification := ''abnormal'', healthScore := 20\<rparr>"

text \<open>A store holding three submissions, oldest first, under the maximum 2.\<close>

definition fullStore :: store where
  "fullStore =
     \<lparr>submissions = [exampleSubmission, secondSubmission, thirdSubmission],
      statistics = None,
      settings = defaultSettings\<lparr>maxSubmissions := 2\<rparr>\<rparr>"

text \<open>
  The later submission as \<^verbatim>\<open>addSubmission\<close> stores it under the default settings: with
  the id, and with the location cut to its first segment.
\<close>

definition laterStored :: submission where
  "laterStored =
     laterSubmission\<lparr>ident := Some ''id1'',
       demographics := (demographics laterSubmission)\<lparr>location := ''Pune''\<rparr>\<rparr>"

text \<open>A submission that validation rejects: its score is above 100.\<close>

definition invalidSubmission :: submission where
  "invalidSubmission = laterSubmission\<lparr>healthScore := 101\<rparr>"


text \<open>A store with a retention window of one day.\<close>

definition oneDayStore :: "submission list \<Rightarrow> store" where
  "oneDayStore subs =
     \<lparr>submissions = subs,
      statistics = None,
      settings = defaultSettings\<lparr>dataRetentionDays := 1\<rparr>\<rparr>"

text \<open>A location that contains the quote character and no comma: \<^verbatim>\<open>"NY"\<close>.\<close>

definition quotedLocation :: string where
  "quotedLocation = [CHR 0x22] @ ''NY'' @ [CHR 0x22]"

definition quotedSubmission :: submission where
  "quotedSubmission =
     exampleSubmission\<lparr>demographics := (demographics exampleSubmission)\<lparr>location := quotedLocation\<rparr>\<rparr>"

section \<open>The classifier\<close>

subsection \<open>Classification by votes\<close>

lemma checkField_votes:
  assumes "set (healthy t) \<inter> set (abnormal t) = {}"
  shows "checkField t v c
           = (fst c + spec_bucketVote (healthy t) v, snd c + spec_bucketVote (abnormal t) v)"
  using assms by (auto simp: checkField_def spec_bucketVote_def)

lemma disjoint_physicalActivity:
  "set (healthy th_physicalActivity) \<inter> set (abnormal th_physicalActivity) = {}"
  by (simp add: th_physicalActivity_def)

lemma disjoint_sleepHours: "set (healthy th_sleepHours) \<inter> set (abnormal th_sleepHours) = {}"
  by (simp add: th_sleepHours_def)

lemma disjoint_smoking: "set (healthy th_smoking) \<inter> set (abnormal th_smoking) = {}"
  by (simp add: th_smoking_def)

lemma disjoint_alcohol: "set (healthy th_alcohol) \<inter> set (abnormal th_alcohol) = {}"
  by (simp add: th_alcohol_def)

lemma disjoint_overallHealth:
  "set (healthy th_overallHealth) \<inter> set (abnormal th_overallHealth) = {}"
  by (simp add: th_overallHealth_def)

lemmas checkField_table =
  checkField_votes [OF disjoint_physicalActivity] checkField_votes [OF disjoint_sleepHours]
  checkField_votes [OF disjoint_smoking] checkField_votes [OF disjoint_alcohol]
  checkField_votes [OF disjoint_overallHealth]

lemma hasRiskConditions_iff: "hasRiskConditions d = spec_riskTagPresent d"
  by (auto simp: hasRiskConditions_def spec_riskTagPresent_def list_ex_iff)

lemma voteCounts_votes: "voteCounts d = (spec_healthyVotes d, spec_abnormalVotes d)"
  unfolding voteCounts_def Let_def spec_healthyVotes_def spec_abnormalVotes_def
  by (simp add: checkField_table hasRiskConditions_iff)

text \<open>
  Claim C1. For every response, \<open>classifyHealth\<close> returns "abnormal" when the abnormal
  votes exceed the healthy votes, "healthy" when the healthy votes exceed the abnormal
  votes, and "moderate" when the two counts are equal, the votes being those of the
  specification: one vote per lifestyle or overall-health field according to the bucket
  tables, two abnormal votes when a risk tag other than "none" is present, and one
  healthy vote when "none" is present and no risk tag is.
\<close>

theorem classifyHealth_by_votes:
  "classifyHealth d =
     (if spec_abnormalVotes d > spec_healthyVotes d then ''abnormal''
      else if spec_healthyVotes d > spec_abnormalVotes d then ''healthy''
      else ''moderate'')"
  by (simp add: classifyHealth_def voteCounts_votes Let_def)

subsection \<open>Range of the score\<close>

lemma plusLookup_Text: "plusLookup Text p = Text"
  by (cases p) simp_all

lemma plusLookup_Number: "p \<noteq> Inherited \<Longrightarrow> \<exists>m. plusLookup (Number n) p = Number m"
  by (cases p) simp_all

lemma getProperty_Inherited:
  "getProperty obj key = Inherited \<longleftrightarrow> map_of obj key = None \<and> key \<in> set objectPrototypeKeys"
  by (simp add: getProperty_def split: option.splits)

text \<open>
  When no scored field names an inherited member of an object literal, the score is an
  integer between 0 and 100.
\<close>

lemma calculateHealthScore_in_range:
  assumes "physicalActivity (lifestyle d) \<notin> set objectPrototypeKeys"
    and "sleepHours (lifestyle d) \<notin> set objectPrototypeKeys"
    and "smoking (lifestyle d) \<notin> set objectPrototypeKeys"
    and "alcohol (lifestyle d) \<notin> set objectPrototypeKeys"
    and "overallHealth d \<notin> set objectPrototypeKeys"
  shows "\<exists>n. calculateHealthScore d = Number n \<and> 0 \<le> n \<and> n \<le> 100"
proof -
  obtain s1 where s1:
    "plusLookup (Number 50) (getProperty activityScores (physicalActivity (lifestyle d))) = Number s1"
    using assms(1) plusLookup_Number getProperty_Inherited by blast
  obtain s2 where s2:
    "plusLookup (Number s1) (getProperty sleepScores (sleepHours (lifestyle d))) = Number s2"
    using assms(2) plusLookup_Number getProperty_Inherited by blast
  obtain s3 where s3:
    "plusLookup (Number s2) (getProperty smokingScores (smoking (lifestyle d))) = Number s3"
    using assms(3) plusLookup_Number getProperty_Inherited by blast
  obtain s4 where s4:
    "plusLookup (Number s3) (getProperty alcoholScores (alcohol (lifestyle d))) = Number s4"
    using assms(4) plusLookup_Number getProperty_Inherited by blast
  obtain s5 where s5:
    "plusLookup (Number s4) (getProperty healthScores (overallHealth d)) = Number s5"
    using assms(5) plusLookup_Number getProperty_Inherited by blast
  show ?thesis
    unfolding calculateHealthScore_def Let_def s1 s2 s3 s4 s5 by simp
qed

lemma getProperty_constructor: "getProperty activityScores ''constructor'' = Inherited"
  by (simp add: getProperty_def activityScores_def objectPrototypeKeys_def)

text \<open>
  Claim C2 says that the score is an integer in the interval from 0 to 100 for every
  response, unrecognised field values included. The code does not return such a score
  for a response whose activity field is "constructor": the lookup
  \<^verbatim>\<open>activityScores['constructor']\<close> finds the inherited constructor function, \<^verbatim>\<open>+=\<close>
  turns the score into a string, the subtraction of the risk-tag penalty turns it into
  \<^verbatim>\<open>NaN\<close>, and \<^verbatim>\<open>Math.max(0, Math.min(100, NaN))\<close> is \<^verbatim>\<open>NaN\<close>, whatever the other fields
  hold.
\<close>

theorem calculateHealthScore_constructor:
  "physicalActivity (lifestyle constructorResponse) = ''constructor''
   \<and> calculateHealthScore constructorResponse = NaN"
  by (simp add: constructorResponse_def calculateHealthScore_def Let_def getProperty_constructor
      plusLookup_Text)

subsection \<open>The worked example\<close>

lemma exampleResponse_votes: "voteCounts (exampleResponse d) = (5, 1)"
  by (simp add: exampleResponse_def voteCounts_def Let_def checkField_def hasRiskConditions_def
      th_physicalActivity_def th_sleepHours_def th_smoking_def th_alcohol_def
      th_overallHealth_def riskConditions_def)

lemma exampleResponse_score: "calculateHealthScore (exampleResponse d) = Number 90"
  by (simp add: exampleResponse_def calculateHealthScore_def Let_def getProperty_def
      activityScores_def sleepScores_def smokingScores_def alcoholScores_def healthScores_def
      riskConditions_def)

text \<open>
  Claim C3, as amended. For the response with physicalActivity "sedentary", sleepHours
  "7-8", smoking "never", alcohol "never", overallHealth "good" and medicalConditions
  ["none"], whatever its other fields, the classifier counts 5 healthy votes and 1
  abnormal vote, classifies it "healthy", and returns the score 90: the deltas
  -10, +15, +10, +5, +10 and +10 on the base 50.
\<close>

theorem exampleResponse_classified:
  "voteCounts (exampleResponse d) = (5, 1)
   \<and> classifyHealth (exampleResponse d) = ''healthy''
   \<and> calculateHealthScore (exampleResponse d) = Number 90"
  by (simp add: classifyHealth_def exampleResponse_votes exampleResponse_score)

text \<open>
  The claim as stated gives the score 100 for this response; the code returns 90.
\<close>

theorem exampleResponse_score_not_100:
  "calculateHealthScore (exampleResponse exampleBase) \<noteq> Number 100"
  by (simp add: exampleResponse_score)

subsection \<open>Risk factors\<close>

lemma titleCase_riskConditions:
  "map titleCase riskConditions =
     [''Diabetes'', ''Hypertension'', ''Heart Disease'', ''Asthma'', ''Arthritis'',
      ''Depression'', ''Anxiety'', ''Obesity'']"
  by (simp add: riskConditions_def titleCase_def isWordChar_def toUpperChar_def
      lowerLetters_def upperLetters_def)

lemma titleCase_not_Smoking: "''Smoking'' \<notin> titleCase ` set riskConditions"
proof -
  have "''Smoking'' \<notin> set (map titleCase riskConditions)"
    unfolding titleCase_riskConditions by simp
  then show ?thesis by simp
qed

lemma identifyRiskFactors_split:
  "identifyRiskFactors d =
     spec_lifestyleRiskFactors (lifestyle d)
     @ map titleCase (filter (\<lambda>c. c \<in> set riskConditions) (medicalConditions d))"
  by (simp add: identifyRiskFactors_def spec_lifestyleRiskFactors_def Let_def)

text \<open>
  Claim C4, as amended. For every response, the risk-factor list contains the label
  "Smoking" exactly when the smoking field is "regular" or "occasional" (so neither
  "never" nor "former" receives it), and the list is the labels of the lifestyle fields
  in fixed field order followed by each present tag of the risk-condition list,
  title-cased, in submission order.
\<close>

theorem identifyRiskFactors_smoking:
  "(''Smoking'' \<in> set (identifyRiskFactors d)
      \<longleftrightarrow> smoking (lifestyle d) = ''regular'' \<or> smoking (lifestyle d) = ''occasional'')
   \<and> identifyRiskFactors d =
       spec_lifestyleRiskFactors (lifestyle d)
       @ map titleCase (filter (\<lambda>c. c \<in> set riskConditions) (medicalConditions d))"
proof -
  have "''Smoking''
      \<notin> set (map titleCase (filter (\<lambda>c. c \<in> set riskConditions) (medicalConditions d)))"
    using titleCase_not_Smoking by (auto simp: image_iff)
  moreover have "''Smoking'' \<in> set (spec_lifestyleRiskFactors (lifestyle d))
      \<longleftrightarrow> smoking (lifestyle d) = ''regular'' \<or> smoking (lifestyle d) = ''occasional''"
    by (simp add: spec_lifestyleRiskFactors_def)
  ultimately show ?thesis
    unfolding identifyRiskFactors_split by auto
qed

text \<open>
  The claim as stated gives a smoking label to every status other than "never". A former
  smoker receives none; nor does the "none" tag, which is not a risk condition, appear in
  the list.
\<close>

theorem identifyRiskFactors_former:
  "smoking (lifestyle formerSmoker) = ''former''
   \<and> smoking (lifestyle formerSmoker) \<noteq> ''never''
   \<and> ''Smoking'' \<notin> set (identifyRiskFactors formerSmoker)
   \<and> medicalConditions formerSmoker = [''none'']
   \<and> identifyRiskFactors formerSmoker = [''Sedentary lifestyle'']"
  by (simp add: formerSmoker_def exampleResponse_def exampleBase_def identifyRiskFactors_def
      Let_def riskConditions_def)

section \<open>The data manager\<close>

subsection \<open>Capacity\<close>

lemma submissions_addSubmission:
  assumes "validateSubmissionData s"
  shows "submissions (snd (addSubmission env now newId st s)) =
           (if maxSubmissions (settings st) \<le> int (length (submissions st))
            then spliceFront (int (length (submissions st)) - maxSubmissions (settings st) + 1)
                   (submissions st)
            else submissions st) @ [storedEntry env now newId (settings st) s]"
    and "fst (addSubmission env now newId st s)"
  using assms
  by (simp_all add: addSubmission_def storedEntry_def Let_def split: option.splits)

lemma spliceFront_excess:
  assumes "1 \<le> n" and "n \<le> int (length xs)"
  shows "spliceFront (int (length xs) - n + 1) xs = drop (length xs + 1 - nat n) xs"
proof -
  have "nat (min (max (int (length xs) - n + 1) 0) (int (length xs))) = length xs + 1 - nat n"
    using assms by linarith
  then show ?thesis by (simp only: spliceFront_def)
qed

lemma valid_exampleSubmission: "validateSubmissionData exampleSubmission"
  by (simp add: validateSubmissionData_def exampleSubmission_def)

text \<open>
  Claim C5, as amended. For every submissions collection and configured maximum \<open>N\<close> of at
  least 1, inserting one submission that passes validation when the collection already
  holds at least \<open>N\<close> entries succeeds and leaves the stored collection at exactly \<open>N\<close>
  entries: the \<open>N - 1\<close> most recently inserted old entries, in their order, followed by
  the new entry as it is stored; the oldest entries are dropped from the front.
\<close>

theorem addSubmission_evicts_oldest:
  assumes "validateSubmissionData s"
    and "1 \<le> maxSubmissions (settings st)"
    and "maxSubmissions (settings st) \<le> int (length (submissions st))"
  shows "fst (addSubmission env now newId st s)
       \<and> length (submissions (snd (addSubmission env now newId st s)))
           = nat (maxSubmissions (settings st))
       \<and> submissions (snd (addSubmission env now newId st s))
           = drop (length (submissions st) + 1 - nat (maxSubmissions (settings st)))
               (submissions st)
             @ [storedEntry env now newId (settings st) s]"
proof -
  let ?n = "maxSubmissions (settings st)"
  have eq: "submissions (snd (addSubmission env now newId st s))
      = drop (length (submissions st) + 1 - nat ?n) (submissions st)
        @ [storedEntry env now newId (settings st) s]"
    using submissions_addSubmission(1) [OF assms(1)] spliceFront_excess [OF assms(2,3)] assms(3)
    by simp
  have "length (drop (length (submissions st) + 1 - nat ?n) (submissions st)) + 1 = nat ?n"
    using assms(2,3) by simp
  with eq submissions_addSubmission(2) [OF assms(1)] show ?thesis by simp
qed

text \<open>
  The amended claim at a store that holds three entries under the maximum 2: the insertion
  succeeds, the two oldest entries are dropped, and the store holds the newest old entry
  followed by the new entry as stored.
\<close>

theorem addSubmission_evicts_oldest_witness:
  "validateSubmissionData laterSubmission
   \<and> 1 \<le> maxSubmissions (settings fullStore)
   \<and> maxSubmissions (settings fullStore) \<le> int (length (submissions fullStore))
   \<and> submissions fullStore = [exampleSubmission, secondSubmission, thirdSubmission]
   \<and> thirdSubmission \<noteq> exampleSubmission \<and> thirdSubmission \<noteq> secondSubmission
   \<and> fst (addSubmission exampleBrowser 86400000 ''id1'' fullStore laterSubmission)
   \<and> length (submissions
        (snd (addSubmission exampleBrowser 86400000 ''id1'' fullStore laterSubmission))) = 2
   \<and> submissions (snd (addSubmission exampleBrowser 86400000 ''id1'' fullStore laterSubmission))
       = [thirdSubmission, laterStored]"
proof -
  have h0: "validateSubmissionData laterSubmission"
    by (simp add: validateSubmissionData_def laterSubmission_def exampleSubmission_def)
  have h1: "1 \<le> maxSubmissions (settings fullStore)"
    by (simp add: fullStore_def)
  have h2: "maxSubmissions (settings fullStore) \<le> int (length (submissions fullStore))"
    by (simp add: fullStore_def)
  have stored: "storedEntry exampleBrowser 86400000 ''id1'' (settings fullStore) laterSubmission
                  = laterStored"
    by (simp add: storedEntry_def anonymizeSubmission_def Let_def fullStore_def
        defaultSettings_def laterStored_def laterSubmission_def exampleSubmission_def
        exampleBrowser_def firstSegment_def trim_def isSpace_def)
  have distinct: "thirdSubmission \<noteq> exampleSubmission \<and> thirdSubmission \<noteq> secondSubmission"
    by (simp add: thirdSubmission_def secondSubmission_def exampleSubmission_def)
  show ?thesis
    using addSubmission_evicts_oldest [OF h0 h1 h2, of exampleBrowser 86400000 "''id1''"]
      h0 h1 h2 distinct
    by (simp add: stored) (simp add: fullStore_def)
qed

text \<open>
  The claim as stated covers every configured maximum. Under the maximum 0 a store that
  holds one entry, which is at least 0 entries, holds one entry after the insertion, not 0:
  \<^verbatim>\<open>splice\<close> empties the collection and \<^verbatim>\<open>push\<close> then adds the new entry. And a
  submission that validation rejects is not inserted: under the maximum 1 the store that
  holds one entry is returned as it was, with the failure flag.
\<close>

theorem addSubmission_maximum_zero:
  "validateSubmissionData laterSubmission
   \<and> maxSubmissions (settings (exampleStore 0)) = 0
   \<and> submissions (exampleStore 0) \<noteq> []
   \<and> maxSubmissions (settings (exampleStore 0)) \<le> int (length (submissions (exampleStore 0)))
   \<and> length (submissions
        (snd (addSubmission exampleBrowser 86400000 ''id1'' (exampleStore 0) laterSubmission))) = 1
   \<and> \<not> validateSubmissionData invalidSubmission
   \<and> maxSubmissions (settings (exampleStore 1)) \<le> int (length (submissions (exampleStore 1)))
   \<and> addSubmission exampleBrowser 86400000 ''id1'' (exampleStore 1) invalidSubmission
       = (False, exampleStore 1)"
proof -
  have h0: "validateSubmissionData laterSubmission"
    by (simp add: validateSubmissionData_def laterSubmission_def exampleSubmission_def)
  have h1: "\<not> validateSubmissionData invalidSubmission"
    by (simp add: validateSubmissionData_def invalidSubmission_def laterSubmission_def
        exampleSubmission_def)
  have "length (submissions
        (snd (addSubmission exampleBrowser 86400000 ''id1'' (exampleStore 0) laterSubmission))) = 1"
    using submissions_addSubmission(1) [OF h0, of exampleBrowser 86400000 "''id1''" "exampleStore 0"]
    by (simp add: exampleStore_def spliceFront_def)
  moreover have "addSubmission exampleBrowser 86400000 ''id1'' (exampleStore 1) invalidSubmission
       = (False, exampleStore 1)"
    using h1 by (simp add: addSubmission_def)
  ultimately show ?thesis
    using h0 h1 by (simp add: exampleStore_def)
qed

subsection \<open>Retention\<close>

lemma filter_same_length:
  assumes "length (filter P xs) = length xs"
  shows "filter P xs = xs"
proof -
  have "length (filter (\<lambda>x. \<not> P x) xs) = 0"
    using sum_length_filter_compl [of P xs] assms by simp
  then have "\<forall>x\<in>set xs. P x"
    by (simp add: filter_empty_conv)
  then show ?thesis
    by (simp add: filter_id_conv)
qed

lemma submissions_cleanupOldData:
  "submissions (cleanupOldData env now st) =
     filter (\<lambda>s. dateGreater (parseDate env (timestamp s))
                   (timeClip (now - dataRetentionDays (settings st) * 24 * 60 * 60 * 1000)))
       (submissions st)"
  by (auto simp: cleanupOldData_def Let_def filter_same_length split: option.splits)

lemma dateGreater_retained:
  assumes "\<bar>now - days * 86400000\<bar> \<le> 8640000000000000"
  shows "dateGreater (parseDate env (timestamp s)) (timeClip (now - days * 24 * 60 * 60 * 1000))
           = retained env now days s"
  using assms by (auto simp: retained_def timeClip_def split: option.splits)

text \<open>
  Claim C6, as amended. For every stored submissions collection, retention window (in
  days) and cleanup time whose cutoff instant (the cleanup time less the window) is a
  representable date, the retention cleanup keeps exactly the submissions whose timestamp
  is a valid date of age less than the window, unchanged and in their original order; it
  removes every submission whose age is greater than or equal to the window, and every
  submission whose timestamp is not a valid date.
\<close>

theorem cleanupOldData_retains:
  assumes "\<bar>now - dataRetentionDays (settings st) * 86400000\<bar> \<le> 8640000000000000"
  shows "submissions (cleanupOldData env now st)
           = filter (retained env now (dataRetentionDays (settings st))) (submissions st)"
  unfolding submissions_cleanupOldData
  using dateGreater_retained [OF assms] by simp

text \<open>
  The amended claim one day after the epoch with a window of one day: of an entry stamped
  at that instant and an entry stamped at the epoch, the cleanup keeps the first only.
\<close>

theorem cleanupOldData_retains_witness:
  "\<bar>86400000 - dataRetentionDays (settings (oneDayStore [laterSubmission, exampleSubmission]))
        * 86400000\<bar> \<le> (8640000000000000::int)
   \<and> submissions (cleanupOldData exampleBrowser 86400000
        (oneDayStore [laterSubmission, exampleSubmission])) = [laterSubmission]"
  using cleanupOldData_retains
    [of 86400000 "oneDayStore [laterSubmission, exampleSubmission]" exampleBrowser]
  by (simp add: oneDayStore_def retained_def laterSubmission_def exampleSubmission_def
      exampleBrowser_def defaultSettings_def)

text \<open>
  The claim as stated removes a submission only when its age is greater than the window.
  An entry whose age equals the window of one day is not older than the window, and the
  cleanup removes it.
\<close>

theorem cleanupOldData_boundary:
  "parseDate exampleBrowser (timestamp exampleSubmission) = Some 0
   \<and> \<not> (86400000 - 0 > dataRetentionDays (settings (oneDayStore [exampleSubmission])) * 86400000)
   \<and> submissions (oneDayStore [exampleSubmission]) = [exampleSubmission]
   \<and> submissions (cleanupOldData exampleBrowser 86400000 (oneDayStore [exampleSubmission])) = []"
  unfolding submissions_cleanupOldData
  by (simp add: oneDayStore_def exampleSubmission_def exampleBrowser_def timeClip_def
      defaultSettings_def)

subsection \<open>The aggregator and the clock\<close>

lemma updateStatistics_loop:
  "updateStatistics env now subs =
     map_option (finishAggregate (length subs))
       (forEachSubmission env (startAggregate env now (length subs)) subs)"
  by (simp add: updateStatistics_def startAggregate_def finishAggregate_def Let_def
      split: option.splits)

lemma processSubmission_relabel:
  "processSubmission env (relabel u agg) s = map_option (relabel u) (processSubmission env agg s)"
  by (simp add: processSubmission_def relabel_def withLastUpdated_def Let_def
      split: option.splits)

lemma forEachSubmission_relabel:
  "forEachSubmission env (relabel u agg) ss
     = map_option (relabel u) (forEachSubmission env agg ss)"
proof (induction ss arbitrary: agg)
  case Nil
  then show ?case by simp
next
  case (Cons s ss)
  show ?case
  proof (cases "processSubmission env agg s")
    case None
    then show ?thesis by (simp add: processSubmission_relabel)
  next
    case (Some agg')
    then show ?thesis by (simp add: processSubmission_relabel Cons.IH)
  qed
qed

lemma relabel_start:
  "relabel u (startAggregate env now1 n) = relabel u (startAggregate env now2 n)"
  by (simp add: relabel_def startAggregate_def withLastUpdated_def createInitialStatistics_def)

lemma finishAggregate_relabel:
  "withLastUpdated u (finishAggregate n agg) = finishAggregate n (relabel u agg)"
  by (simp add: finishAggregate_def relabel_def withLastUpdated_def)

text \<open>
  Claim C7, as amended. Running the aggregator twice over the same unchanged submissions
  collection, in the same runtime, yields two summaries that agree in every field other
  than \<open>lastUpdated\<close> (and both runs abort, or neither does): apart from that field, which
  records the clock reading of the run, the output is a function of the collection's
  contents.
\<close>

theorem updateStatistics_clock:
  "map_option (withLastUpdated u) (updateStatistics env now1 subs)
     = map_option (withLastUpdated u) (updateStatistics env now2 subs)"
proof -
  have "map_option (withLastUpdated u) (updateStatistics env now subs)
      = map_option (finishAggregate (length subs))
          (forEachSubmission env (relabel u (startAggregate env now (length subs))) subs)" for now
    by (simp add: updateStatistics_loop forEachSubmission_relabel option.map_comp comp_def
        finishAggregate_relabel)
  then show ?thesis
    using relabel_start [of u env now1 "length subs" now2] by simp
qed

text \<open>
  The claim as stated makes the two summaries identical. Two runs over the empty
  collection at clock readings one day apart differ (in \<open>lastUpdated\<close>).
\<close>

theorem updateStatistics_clock_differs:
  "updateStatistics exampleBrowser 0 [] \<noteq> updateStatistics exampleBrowser 86400000 []"
  by (simp add: updateStatistics_def Let_def createInitialStatistics_def exampleBrowser_def)

subsection \<open>Totals of the summary\<close>















section \<open>The exporter\<close>

text \<open>
  Claim C8. For every store whose submissions collection is empty, every export time and
  every options object, the CSV export returns the failure result with the message
  "No data to export", and the JSON export returns a success result whose exported object
  has an empty submissions array. Every path of \<open>exportData\<close> returns a result: the
  exceptions of the source are caught inside it and returned as failure results.
\<close>

theorem exportData_empty:
  "exportData env now (st\<lparr>submissions := []\<rparr>) ''csv'' options = Failure ''No data to export''
   \<and> (case exportData env now (st\<lparr>submissions := []\<rparr>) ''json'' options of
         Success (JsonContent d) filename mime \<Rightarrow> exp_submissions d = []
       | Success (CsvContent text) filename mime \<Rightarrow> False
       | Failure message \<Rightarrow> False)"
  by (simp add: exportData_def exportAsCSV_def exportAsJSON_def toLowerCase_def toLowerChar_def
      upperLetters_def lowerLetters_def Let_def)

lemma csvCell_comma:
  "CHR '','' \<in> set field
     \<Longrightarrow> csvCell (Str field) = [CHR 0x22] @ doubleQuotes field @ [CHR 0x22]"
  by simp

lemma csvCell_no_comma: "CHR '','' \<notin> set field \<Longrightarrow> csvCell (Str field) = field"
  by simp

text \<open>
  Claim C9 says that every string field that contains the delimiter or the quote
  character is written wrapped in quotes with its quotes doubled. The code wraps and
  doubles only when the field contains a comma: the location \<^verbatim>\<open>"NY"\<close>, which contains
  quotes and no comma, is written as it is, and the row holds it unescaped.
\<close>

theorem csvCell_quote_unescaped:
  "CHR 0x22 \<in> set (location (demographics quotedSubmission))
   \<and> csvCell (Str (location (demographics quotedSubmission)))
       = location (demographics quotedSubmission)
   \<and> join '','' (map csvCell (csvRow quotedSubmission))
       = ''1970-01-01T00:00:00.000Z,26-35,female,'' @ quotedLocation
         @ '',sedentary,balanced,7-8,never,never,none,good,90,healthy,Sedentary lifestyle''"
  by (simp add: quotedSubmission_def quotedLocation_def exampleSubmission_def csvRow_def
      showInt_def showNat.simps)

end
